theory Spec2Isabelle
  imports Main
begin

section \<open>Document indexer: chunking of a source text\<close>

text \<open>
  The index build of \<^verbatim>\<open>build_or_load_chroma\<close> cuts every source text with
  \<^verbatim>\<open>chunks = [text[i:i+chunk_size] for i in range(0, len(text), chunk_size - overlap)]\<close>
  where \<^verbatim>\<open>chunk_size = 800\<close> and \<^verbatim>\<open>overlap = 100\<close>. The cut does not look at the
  characters, so the text is a list over any element type.
\<close>

definition py_range :: "nat \<Rightarrow> nat \<Rightarrow> nat \<Rightarrow> nat list" where
  \<comment> \<open>Python's \<^verbatim>\<open>range(start, stop, step)\<close> for a positive step: the values
      \<^verbatim>\<open>start + k*step\<close> below \<^verbatim>\<open>stop\<close>.\<close>
  "py_range start stop step =
     map (\<lambda>k. start + k * step)
       [0 ..< (if start < stop then (stop - start + step - 1) div step else 0)]"

definition slice :: "'a list \<Rightarrow> nat \<Rightarrow> nat \<Rightarrow> 'a list" where
  \<comment> \<open>Python's \<^verbatim>\<open>xs[i:j]\<close> for \<^verbatim>\<open>0 <= i <= j\<close>; a bound past the end is clipped.\<close>
  "slice xs i j = take (j - i) (drop i xs)"

definition chunk_size :: nat where
  "chunk_size = 800"

definition overlap :: nat where
  "overlap = 100"

definition chunks_of :: "'a list \<Rightarrow> 'a list list" where
  "chunks_of text =
     map (\<lambda>i. slice text i (i + chunk_size))
       (py_range 0 (length text) (chunk_size - overlap))"

section \<open>Document indexer: the vector store and its build\<close>

text \<open>
  A Python \<^verbatim>\<open>str\<close> is modelled as a \<^typ>\<open>string\<close>: a list of 8-bit characters, each
  standing for the code point of the same number (U+0000 to U+00FF). Characters of the
  source's literals beyond that range (the pictographs that decorate messages) are
  written as the bytes of their UTF-8 encoding.

  The Chroma collection is the collaborator behind \<^verbatim>\<open>collection.add\<close> and
  \<^verbatim>\<open>collection.count\<close>: a list of stored entries, each with its document, its
  \<^verbatim>\<open>source\<close> metadata and its id. The collection embeds a document when it is added
  and at no other time, so a build that adds nothing embeds nothing. The file system is
  a function from a path to the text of the file there, \<open>None\<close> when
  \<^verbatim>\<open>os.path.exists\<close> is false.
\<close>

record entry =
  document :: string
  source :: string
  ident :: string

type_synonym collection = "entry list"

definition collection_count :: "collection \<Rightarrow> nat" where
  "collection_count c = length c"

definition collection_add :: "collection \<Rightarrow> string \<Rightarrow> string \<Rightarrow> string \<Rightarrow> collection" where
  \<comment> \<open>\<^verbatim>\<open>collection.add(documents=[doc], metadatas=[{"source": src}], ids=[i])\<close>\<close>
  "collection_add c doc src i = c @ [\<lparr>document = doc, source = src, ident = i\<rparr>]"

fun str_nat :: "nat \<Rightarrow> string" where
  \<comment> \<open>the decimal numeral that an f-string prints for a non-negative \<^verbatim>\<open>int\<close>\<close>
  "str_nat n =
     (if n < 10 then [''0123456789'' ! n]
      else str_nat (n div 10) @ [''0123456789'' ! (n mod 10)])"

declare str_nat.simps [simp del]

definition files_map :: "(string \<times> string) list" where
  \<comment> \<open>the dict of \<^verbatim>\<open>ai_agent.py\<close>, in insertion order\<close>
  "files_map =
    [(''dialog_template'', ''aem_knowledge_base/dialog_template.txt''),
     (''fields_catalog'', ''aem_knowledge_base/fields_catalog.txt''),
     (''sling_examples'', ''aem_knowledge_base/sling_mappings.txt''),
     (''htl_snippets'', ''aem_knowledge_base/htl_snippets.txt''),
     (''js_validation'', ''aem_knowledge_base/multifield_js_validation.txt'')]"

fun add_chunks :: "collection \<Rightarrow> string \<Rightarrow> nat \<Rightarrow> string list \<Rightarrow> collection" where
  \<comment> \<open>\<^verbatim>\<open>for i, chunk in enumerate(chunks): collection.add(...)\<close>, from index \<open>i\<close> on\<close>
  "add_chunks c name i [] = c"
| "add_chunks c name i (chunk # chunks) =
     add_chunks (collection_add c chunk name (name @ ''_'' @ str_nat i)) name (Suc i) chunks"

fun index_files ::
  "(string \<Rightarrow> string option) \<Rightarrow> collection \<Rightarrow> (string \<times> string) list \<Rightarrow> collection" where
  \<comment> \<open>\<^verbatim>\<open>for name, path in files_map.items()\<close>: a missing file is skipped\<close>
  "index_files fs c [] = c"
| "index_files fs c ((name, path) # rest) =
     (case fs path of
        None \<Rightarrow> index_files fs c rest
      | Some text \<Rightarrow> index_files fs (add_chunks c name 0 (chunks_of text)) rest)"

definition build_or_load_chroma ::
  "(string \<Rightarrow> string option) \<Rightarrow> collection \<Rightarrow> collection" where
  \<comment> \<open>\<open>stored\<close> is what \<^verbatim>\<open>get_or_create_collection\<close> finds in the persistent
      store (empty when it creates the collection); the result is the store afterwards\<close>
  "build_or_load_chroma fs stored =
     (let collection = stored in
      if collection_count collection > 0 then collection
      else index_files fs collection files_map)"

section \<open>Strings\<close>

definition join :: "string \<Rightarrow> string list \<Rightarrow> string" where
  \<comment> \<open>\<^verbatim>\<open>sep.join(xs)\<close>\<close>
  "join sep xs = (case xs of [] \<Rightarrow> [] | y # ys \<Rightarrow> y @ concat (map (\<lambda>z. sep @ z) ys))"

definition lower_char :: "char \<Rightarrow> char" where
  \<comment> \<open>lower case of a code point below 256: A to Z, and U+00C0 to U+00DE without U+00D7\<close>
  "lower_char c =
     (let n = (of_char c :: nat) in
      if (65 \<le> n \<and> n \<le> 90) \<or> (192 \<le> n \<and> n \<le> 222 \<and> n \<noteq> 215)
      then char_of (n + 32) else c)"

definition lower :: "string \<Rightarrow> string" where
  \<comment> \<open>\<^verbatim>\<open>s.lower()\<close>\<close>
  "lower s = map lower_char s"

fun contains :: "string \<Rightarrow> string \<Rightarrow> bool" where
  \<comment> \<open>\<^verbatim>\<open>sub in s\<close> for two strings\<close>
  "contains [] sub = (sub = [])"
| "contains (c # cs) sub = (take (length sub) (c # cs) = sub \<or> contains cs sub)"

section \<open>Multi-query retriever\<close>

text \<open>
  A field is the dict \<^verbatim>\<open>{"type": ..., "name": ..., "label": ...}\<close> that \<^verbatim>\<open>add_field\<close>
  appends. The similarity index is the collaborator behind \<^verbatim>\<open>collection.query\<close>: a
  function from the query text and \<^verbatim>\<open>n_results\<close> to the ranked documents
  (\<^verbatim>\<open>results.get("documents", [[]])[0]\<close>), or \<open>None\<close> when the call raises. The calls
  made are logged, in order, with their arguments. The source's parameter \<^verbatim>\<open>fields\<close> is
  written \<open>flds\<close> throughout.
\<close>

record field =
  ftype :: string
  fname :: string
  flabel :: string

record rag_context =
  dialog_context :: string
  sling_context :: string
  htl_context :: string
  js_context :: string
  fields_context :: string

type_synonym query_fn = "string \<Rightarrow> nat \<Rightarrow> string list option"

type_synonym query_log = "(string \<times> nat) list"

definition TOP_K :: nat where
  "TOP_K = 10"

definition empty_bundle :: rag_context where
  "empty_bundle =
     \<lparr>dialog_context = [], sling_context = [], htl_context = [], js_context = [],
      fields_context = []\<rparr>"

definition join_docs :: "string list \<Rightarrow> string" where
  \<comment> \<open>\<^verbatim>\<open>"\n\n".join(docs) if docs else ""\<close>\<close>
  "join_docs docs = (if docs \<noteq> [] then join [CHR 0x0A, CHR 0x0A] docs else [])"

definition run_query ::
  "query_fn \<Rightarrow> string \<Rightarrow> nat \<Rightarrow> query_log \<Rightarrow>
   (string list \<Rightarrow> query_log \<Rightarrow> 'a option \<times> query_log) \<Rightarrow> 'a option \<times> query_log" where
  \<comment> \<open>one \<^verbatim>\<open>collection.query\<close> inside the \<^verbatim>\<open>try\<close>: a raise ends the body with
      \<open>None\<close>, a result goes to the rest of the body\<close>
  "run_query q text k log rest =
     (case q text k of
        None \<Rightarrow> (None, log @ [(text, k)])
      | Some docs \<Rightarrow> rest docs (log @ [(text, k)]))"

definition multifield_types :: "string list" where
  "multifield_types = [''Multifield'', ''Tags picker'', ''Drop down Field'']"

definition needs_js :: "field list \<Rightarrow> string \<Rightarrow> bool" where
  \<comment> \<open>\<^verbatim>\<open>ai_agent.py\<close>\<close>
  "needs_js flds user_context =
     ((\<exists>f \<in> set flds. ftype f \<in> set multifield_types)
      \<or> contains (lower user_context) ''validation'')"

definition js_query :: "field list \<Rightarrow> string" where
  "js_query flds =
     ''JavaScript validation example clientlib '' @ join '' '' (map ftype flds)"

definition retrieve_body :: "query_fn \<Rightarrow> field list \<Rightarrow> string \<Rightarrow> rag_context option \<times> query_log" where
  \<comment> \<open>the \<^verbatim>\<open>try\<close> block of \<^verbatim>\<open>retrieve_targeted_context\<close> in \<^verbatim>\<open>ai_agent.py\<close>\<close>
  "retrieve_body q flds user_context =
     (let all_retrieved = empty_bundle;
          dialog_query = ''dialog XML structure example granite ui form fields tabs ''
                           @ join '' '' (map ftype flds) in
      run_query q dialog_query TOP_K [] (\<lambda>dialog_docs log.
      let all_retrieved = all_retrieved\<lparr>dialog_context := join_docs dialog_docs\<rparr>;
          sling_query = ''Sling Model Java @Model @ValueMapValue annotations example ''
                          @ join '' '' (map ftype flds) in
      run_query q sling_query TOP_K log (\<lambda>sling_docs log.
      let all_retrieved = all_retrieved\<lparr>sling_context := join_docs sling_docs\<rparr>;
          htl_query = ''HTL template data-sly-use Sling Model example ''
                        @ join '' '' (map ftype flds) in
      run_query q htl_query TOP_K log (\<lambda>htl_docs log.
      let all_retrieved = all_retrieved\<lparr>htl_context := join_docs htl_docs\<rparr>;
          field_types_str = join '' '' (map ftype flds);
          fields_query = ''field types examples '' @ field_types_str
                           @ '' sling:resourceType granite properties'' in
      run_query q fields_query TOP_K log (\<lambda>fields_docs log.
      let all_retrieved = all_retrieved\<lparr>fields_context := join_docs fields_docs\<rparr> in
      if needs_js flds user_context then
        run_query q (js_query flds) 5 log (\<lambda>js_docs log.
          (Some (all_retrieved\<lparr>js_context := join_docs js_docs\<rparr>), log))
      else (Some all_retrieved, log))))))"

definition retrieve_targeted_context ::
  "query_fn \<Rightarrow> field list \<Rightarrow> string \<Rightarrow> rag_context \<times> query_log" where
  \<comment> \<open>\<^verbatim>\<open>ai_agent.py\<close>: the \<^verbatim>\<open>except Exception\<close> branch returns the all-empty dict\<close>
  "retrieve_targeted_context q flds user_context =
     (case retrieve_body q flds user_context of
        (Some all_retrieved, log) \<Rightarrow> (all_retrieved, log)
      | (None, log) \<Rightarrow> (empty_bundle, log))"

text \<open>
  \<^verbatim>\<open>ai_agent_new.py\<close> builds its queries from the set of the field types. The order in
  which Python iterates that set is not fixed by the language, so it is the parameter
  \<open>iter\<close>: the list that iterating the set yields.
\<close>

definition needs_validation :: "string \<Rightarrow> bool" where
  "needs_validation user_context =
     (contains (lower user_context) ''validation''
      \<or> contains (lower user_context) ''validate''
      \<or> contains (lower user_context) ''required'')"

definition js_query_new :: string where
  "js_query_new = ''JavaScript clientlib validation coral foundation''"

definition retrieve_body_new ::
  "(string set \<Rightarrow> string list) \<Rightarrow> query_fn \<Rightarrow> field list \<Rightarrow> string
   \<Rightarrow> rag_context option \<times> query_log" where
  \<comment> \<open>the \<^verbatim>\<open>try\<close> block of \<^verbatim>\<open>retrieve_targeted_context\<close> in \<^verbatim>\<open>ai_agent_new.py\<close>\<close>
  "retrieve_body_new iter q flds user_context =
     (let all_retrieved = empty_bundle;
          field_types_set = set (map ftype flds);
          field_types_str = join '' '' (iter field_types_set);
          has_multifield = (''Multifield'' \<in> field_types_set);
          dialog_query = ''dialog XML granite ui container tabs items structure'' in
      run_query q dialog_query 5 [] (\<lambda>dialog_docs log.
      let all_retrieved = all_retrieved\<lparr>dialog_context := join_docs dialog_docs\<rparr>;
          sling_query = ''Sling Model @Model adaptables DefaultInjectionStrategy @ValueMapValue @Default complete class''
                          @ (if has_multifield then '' @ChildResource List composite multifield'' else []) in
      run_query q sling_query 8 log (\<lambda>sling_docs log.
      let all_retrieved = all_retrieved\<lparr>sling_context := join_docs sling_docs\<rparr>;
          htl_query = ''HTL data-sly-use model property access syntax'' in
      run_query q htl_query 5 log (\<lambda>htl_docs log.
      let all_retrieved = all_retrieved\<lparr>htl_context := join_docs htl_docs\<rparr>;
          js_part = (\<lambda>all_retrieved log.
            if needs_validation user_context \<or> has_multifield then
              run_query q js_query_new 3 log (\<lambda>js_docs log.
                (Some (all_retrieved\<lparr>js_context := join_docs js_docs\<rparr>), log))
            else (Some all_retrieved, log)) in
      if field_types_str \<noteq> [] then
        run_query q (field_types_str @ '' sling:resourceType granite field properties'') 8 log
          (\<lambda>fields_docs log.
             js_part (all_retrieved\<lparr>fields_context := join_docs fields_docs\<rparr>) log)
      else js_part all_retrieved log))))"

definition retrieve_targeted_context_new ::
  "(string set \<Rightarrow> string list) \<Rightarrow> query_fn \<Rightarrow> field list \<Rightarrow> string \<Rightarrow> rag_context \<times> query_log" where
  "retrieve_targeted_context_new iter q flds user_context =
     (case retrieve_body_new iter q flds user_context of
        (Some all_retrieved, log) \<Rightarrow> (all_retrieved, log)
      | (None, log) \<Rightarrow> (empty_bundle, log))"

section \<open>Session field list\<close>

text \<open>
  \<^verbatim>\<open>fields_data\<close> is a module-level list that \<^verbatim>\<open>add_field\<close> appends to in place and also
  returns as its third output. The model takes the list before the call as its last
  argument; the third component of the result is the list after the call.
\<close>

definition warning_sign :: string where
  \<comment> \<open>U+26A0 U+FE0F\<close>
  "warning_sign = [CHR 0xE2, CHR 0x9A, CHR 0xA0, CHR 0xEF, CHR 0xB8, CHR 0x8F]"

definition check_mark :: string where
  \<comment> \<open>U+2705\<close>
  "check_mark = [CHR 0xE2, CHR 0x9C, CHR 0x85]"

definition cross_mark :: string where
  \<comment> \<open>U+274C\<close>
  "cross_mark = [CHR 0xE2, CHR 0x9D, CHR 0x8C]"

definition puzzle_piece :: string where
  \<comment> \<open>U+1F9E9\<close>
  "puzzle_piece = [CHR 0xF0, CHR 0x9F, CHR 0xA7, CHR 0xA9]"

definition clipboard :: string where
  \<comment> \<open>U+1F4CB\<close>
  "clipboard = [CHR 0xF0, CHR 0x9F, CHR 0x93, CHR 0x8B]"

definition em_dash :: string where
  \<comment> \<open>U+2014\<close>
  "em_dash = [CHR 0xE2, CHR 0x80, CHR 0x94]"

definition no_fields_yet :: string where
  "no_fields_yet = ''### '' @ clipboard @ '' Fields Added\<newline>_(No fields added yet)_''"

definition add_field ::
  "string \<Rightarrow> string \<Rightarrow> string \<Rightarrow> string \<Rightarrow> field list \<Rightarrow> string \<times> string \<times> field list" where
  "add_field selected_type field_name field_label current_list fields_data =
     (if field_name = [] \<or> field_label = [] then
        (current_list,
         warning_sign @ '' Please enter both a field name and label.'',
         fields_data)
      else
        let fields_data = fields_data
              @ [\<lparr>ftype = selected_type, fname = field_name, flabel = field_label\<rparr>];
            new_entry = puzzle_piece @ '' **'' @ selected_type @ ''** '' @ em_dash
              @ '' Label: `'' @ field_label @ ''`, Name: `'' @ field_name @ ''`'';
            updated_list =
              (if current_list = no_fields_yet
               then ''### '' @ clipboard @ '' Fields Added\<newline>\<newline>'' @ new_entry
               else current_list @ ''\<newline>\<newline>'' @ new_entry)
        in (updated_list,
            check_mark @ '' Added '' @ selected_type @ '' field successfully.'',
            fields_data))"

section \<open>Regular expressions\<close>

text \<open>
  The four tab patterns of \<^verbatim>\<open>ai_agent_new_4.py\<close> use literals, optional groups,
  alternatives, one character class repeated with \<^verbatim>\<open>+\<close> and one capturing group. The
  matcher below follows Python's backtracking order: it returns every way to match at the
  start of the text, best first, each with the text left over and the text of the
  capturing group (\<open>None\<close> while the group has not taken part). Every quantifier is
  greedy, as in the patterns. Matching ignores case (\<^verbatim>\<open>re.IGNORECASE\<close>).
\<close>

datatype rx =
    Lit string
  | Cls "char \<Rightarrow> bool"
  | Plus_cls "char \<Rightarrow> bool"
  | Seq rx rx
  | Alt rx rx
  | Opt rx
  | Group rx

definition is_space :: "char \<Rightarrow> bool" where
  \<comment> \<open>\<^verbatim>\<open>str.isspace\<close> and the class \<^verbatim>\<open>\s\<close> on code points below 256\<close>
  "is_space c =
     (let n = (of_char c :: nat) in
      (9 \<le> n \<and> n \<le> 13) \<or> (28 \<le> n \<and> n \<le> 32) \<or> n = 133 \<or> n = 160)"

definition is_ascii_alpha :: "char \<Rightarrow> bool" where
  "is_ascii_alpha c =
     (let n = (of_char c :: nat) in (65 \<le> n \<and> n \<le> 90) \<or> (97 \<le> n \<and> n \<le> 122))"

definition alpha_or_space :: "char \<Rightarrow> bool" where
  \<comment> \<open>the class \<^verbatim>\<open>[A-Za-z\s]\<close>\<close>
  "alpha_or_space c = (is_ascii_alpha c \<or> is_space c)"

definition quote_char :: "char \<Rightarrow> bool" where
  \<comment> \<open>the class \<^verbatim>\<open>["\']\<close>\<close>
  "quote_char c = (c = CHR 0x22 \<or> c = CHR 0x27)"

fun rmatch :: "rx \<Rightarrow> string \<times> string option \<Rightarrow> (string \<times> string option) list" where
  "rmatch (Lit l) (s, cap) =
     (if map lower_char (take (length l) s) = map lower_char l
      then [(drop (length l) s, cap)] else [])"
| "rmatch (Cls P) (s, cap) =
     (case s of [] \<Rightarrow> [] | c # cs \<Rightarrow> if P c then [(cs, cap)] else [])"
| "rmatch (Plus_cls P) (s, cap) =
     map (\<lambda>n. (drop n s, cap)) (rev [1 ..< Suc (length (takeWhile P s))])"
| "rmatch (Seq a b) st = concat (map (rmatch b) (rmatch a st))"
| "rmatch (Alt a b) st = rmatch a st @ rmatch b st"
| "rmatch (Opt a) st = rmatch a st @ [st]"
| "rmatch (Group a) (s, cap) =
     map (\<lambda>(s', cap'). (s', Some (take (length s - length s') s))) (rmatch a (s, cap))"

fun findall_skip :: "rx \<Rightarrow> string \<Rightarrow> nat \<Rightarrow> string list" where
  \<comment> \<open>\<^verbatim>\<open>re.findall\<close> for a pattern with one group that cannot match the empty string:
      the matches from left to right, without overlap; \<open>skip\<close> characters of the text
      belong to the match before\<close>
  "findall_skip r [] skip = []"
| "findall_skip r (c # cs) (Suc skip) = findall_skip r cs skip"
| "findall_skip r (c # cs) 0 =
     (case rmatch r (c # cs, None) of
        [] \<Rightarrow> findall_skip r cs 0
      | (rest, cap) # _ \<Rightarrow>
          (case cap of None \<Rightarrow> [] | Some g \<Rightarrow> g)
            # findall_skip r cs (length cs - length rest))"

definition findall :: "rx \<Rightarrow> string \<Rightarrow> string list" where
  "findall r s = findall_skip r s 0"

section \<open>Tab inference\<close>

definition strip :: "string \<Rightarrow> string" where
  \<comment> \<open>\<^verbatim>\<open>s.strip()\<close>\<close>
  "strip s = rev (dropWhile is_space (rev (dropWhile is_space s)))"

definition upper_char :: "char \<Rightarrow> char" where
  "upper_char c =
     (let n = (of_char c :: nat) in if 97 \<le> n \<and> n \<le> 122 then char_of (n - 32) else c)"

fun title_from :: "bool \<Rightarrow> string \<Rightarrow> string" where
  \<comment> \<open>the loop of \<^verbatim>\<open>str.title\<close>; the flag says that the character before is cased\<close>
  "title_from previous_is_cased [] = []"
| "title_from previous_is_cased (c # cs) =
     (if previous_is_cased then lower_char c else upper_char c)
       # title_from (is_ascii_alpha c) cs"

definition title :: "string \<Rightarrow> string" where
  \<comment> \<open>\<^verbatim>\<open>s.title()\<close>, for the strings it is applied to here: text matched by
      \<^verbatim>\<open>[A-Za-z\s]+\<close>, which holds ASCII letters and white space only\<close>
  "title s = title_from False s"

definition tab_keywords :: "string list" where
  "tab_keywords =
    [''separate tab'', ''different tab'', ''another tab'', ''in a tab'',
     ''tab with name'', ''tab name as'', ''tab named'',
     ''configuration tab'', ''content tab'', ''properties tab'',
     ''settings tab'', ''data tab'', ''additional tab'']"

definition has_tab_mention :: "string \<Rightarrow> bool" where
  "has_tab_mention context_lower = (\<exists>keyword \<in> set tab_keywords. contains context_lower keyword)"

definition name_group :: rx where
  \<comment> \<open>\<^verbatim>\<open>([A-Za-z\s]+)\<close>\<close>
  "name_group = Group (Plus_cls alpha_or_space)"

text \<open>
  The patterns, as the source writes them:
  \<^item> \<^verbatim>\<open>tab (?:with )?name (?:as |is )?["\']?([A-Za-z\s]+)["\']?\<close>
  \<^item> \<^verbatim>\<open>in (?:a |the )?["\']?([A-Za-z\s]+)["\']? tab\<close>
  \<^item> \<^verbatim>\<open>separate tab (?:with name |as )?["\']?([A-Za-z\s]+)?["\']?\<close>
  \<^item> \<^verbatim>\<open>another tab (?:with name |as )?["\']?([A-Za-z\s]+)?["\']?\<close>
\<close>

definition tab_patterns :: "rx list" where
  "tab_patterns =
    [Seq (Lit ''tab '') (Seq (Opt (Lit ''with '')) (Seq (Lit ''name '')
       (Seq (Opt (Alt (Lit ''as '') (Lit ''is ''))) (Seq (Opt (Cls quote_char))
       (Seq name_group (Opt (Cls quote_char))))))),
     Seq (Lit ''in '') (Seq (Opt (Alt (Lit ''a '') (Lit ''the ''))) (Seq (Opt (Cls quote_char))
       (Seq name_group (Seq (Opt (Cls quote_char)) (Lit '' tab''))))),
     Seq (Lit ''separate tab '') (Seq (Opt (Alt (Lit ''with name '') (Lit ''as '')))
       (Seq (Opt (Cls quote_char)) (Seq (Opt name_group) (Opt (Cls quote_char))))),
     Seq (Lit ''another tab '') (Seq (Opt (Alt (Lit ''with name '') (Lit ''as '')))
       (Seq (Opt (Cls quote_char)) (Seq (Opt name_group) (Opt (Cls quote_char)))))]"

definition pattern_names :: "rx \<Rightarrow> string \<Rightarrow> string list" where
  \<comment> \<open>\<^verbatim>\<open>[m.strip().title() for m in matches if m.strip()]\<close>\<close>
  "pattern_names pattern context_lower =
     map (\<lambda>m. title (strip m)) (filter (\<lambda>m. strip m \<noteq> []) (findall pattern context_lower))"

definition dict_fromkeys :: "'a list \<Rightarrow> 'a list" where
  \<comment> \<open>\<^verbatim>\<open>list(dict.fromkeys(xs))\<close>: the keys in the order of their first insertion\<close>
  "dict_fromkeys xs = fold (\<lambda>x keys. if x \<in> set keys then keys else keys @ [x]) xs []"

definition detected_tabs :: "string \<Rightarrow> string list" where
  "detected_tabs context_lower =
     dict_fromkeys (concat (map (\<lambda>pattern. pattern_names pattern context_lower) tab_patterns))"

definition tab_analysis :: "string list \<Rightarrow> string" where
  "tab_analysis tabs =
     ''Detected tab names from context: ''
       @ (if tabs \<noteq> [] then join '', '' tabs else ''No explicit names found'')"

section \<open>Structural inference: Multifield bookkeeping\<close>

text \<open>
  \<^verbatim>\<open>ai_agent_new_2.py\<close> and \<^verbatim>\<open>ai_agent_new_4.py\<close> share this code word for word. A Python
  dict is a list of key-value pairs in the order of first insertion; setting a key that is
  present replaces its value in place.
\<close>

record multifield_entry =
  mf_label :: string
  child_fields :: "string list"

definition dict_set :: "('k \<times> 'v) list \<Rightarrow> 'k \<Rightarrow> 'v \<Rightarrow> ('k \<times> 'v) list" where
  "dict_set d k v =
     (if k \<in> fst ` set d then map (\<lambda>(k', v'). if k' = k then (k', v) else (k', v')) d
      else d @ [(k, v)])"

definition build_fields_step ::
  "field \<Rightarrow> field list \<times> (string \<times> multifield_entry) list
   \<Rightarrow> field list \<times> (string \<times> multifield_entry) list" where
  \<comment> \<open>the body of the loop that fills \<^verbatim>\<open>fields_list\<close> and \<^verbatim>\<open>multifield_info\<close>\<close>
  "build_fields_step f acc =
     (case acc of (fields_list, multifield_info) \<Rightarrow>
        (fields_list @ [\<lparr>ftype = ftype f, fname = fname f, flabel = flabel f\<rparr>],
         if ftype f = ''Multifield''
         then dict_set multifield_info (fname f) \<lparr>mf_label = flabel f, child_fields = []\<rparr>
         else multifield_info))"

definition build_fields :: "field list \<Rightarrow> field list \<times> (string \<times> multifield_entry) list" where
  "build_fields flds = fold build_fields_step flds ([], [])"

definition multifield_context_note ::
  "field list \<Rightarrow> (string \<times> multifield_entry) list \<Rightarrow> string \<Rightarrow> (string \<times> string list) option" where
  \<comment> \<open>\<open>None\<close> is the empty note; \<open>Some (names, component_field_names)\<close> is the fixed
      clarification text with its two holes filled\<close>
  "multifield_context_note fields_list multifield_info user_context =
     (if multifield_info \<noteq> [] \<and> user_context \<noteq> [] then
        let component_field_names = map fname fields_list;
            component_field_types = map ftype fields_list
        in Some (join '', '' (map fst multifield_info), component_field_names)
      else None)"

definition tab_instructions :: "string \<Rightarrow> string option" where
  \<comment> \<open>\<^verbatim>\<open>ai_agent_new_4.py\<close>; \<open>None\<close> is the empty string, \<open>Some a\<close> is the fixed
      instruction block with \<^verbatim>\<open>tab_analysis\<close> in its one hole\<close>
  "tab_instructions user_context =
     (if user_context \<noteq> [] then
        let context_lower = lower user_context in
        if has_tab_mention context_lower
        then Some (tab_analysis (detected_tabs context_lower))
        else None
      else None)"

section \<open>Prompt assembly and post-processing\<close>

text \<open>
  The prompt is a fixed text with holes; a request is the record of the values that fill
  the holes. The code generator is the collaborator behind
  \<^verbatim>\<open>client.chat.completions.create\<close>: it returns the content of the first choice or
  raises. \<^verbatim>\<open>json.loads\<close> returns the parsed object or raises \<^verbatim>\<open>JSONDecodeError\<close>. A
  value of the parsed object is a string, or a value of another type, on which
  \<^verbatim>\<open>.strip()\<close> raises \<^verbatim>\<open>AttributeError\<close>. The three knowledge texts are read from
  files when the module is loaded.
\<close>

datatype 'a raised = Raises string | Returns 'a

datatype jval = JString string | JOther string

datatype 'r event = Query string nat | Generate 'r


record knowledge =
  dialog_template :: string
  sling_mappings :: string
  htl_snippets :: string

record request =
  fields_json :: "field list"
  req_user_context :: string
  req_rag_context :: rag_context
  req_knowledge :: knowledge

definition get_strip :: "(string \<rightharpoonup> jval) \<Rightarrow> string \<Rightarrow> string raised" where
  \<comment> \<open>\<^verbatim>\<open>parsed.get(key, "").strip()\<close>\<close>
  "get_strip parsed key =
     (case parsed key of
        None \<Rightarrow> Returns (strip [])
      | Some (JString s) \<Rightarrow> Returns (strip s)
      | Some (JOther ty) \<Rightarrow>
          Raises ([CHR 0x27] @ ty @ [CHR 0x27] @ '' object has no attribute ''
                    @ [CHR 0x27] @ ''strip'' @ [CHR 0x27]))"

definition error_generating :: "string \<Rightarrow> string" where
  "error_generating e = cross_mark @ '' Error generating code: '' @ e"

definition json_parsing_error :: "string \<Rightarrow> string \<Rightarrow> string" where
  "json_parsing_error e ai_output =
     cross_mark @ '' JSON parsing error: '' @ e @ ''\<newline>\<newline>Raw output:\<newline>''
       @ take 500 ai_output"

definition no_fields_warning :: string where
  "no_fields_warning = warning_sign @ '' Please add at least one field before generating.''"

definition validate :: "(string \<rightharpoonup> jval) \<Rightarrow> string \<times> string \<times> string \<times> string" where
  \<comment> \<open>\<^verbatim>\<open>ai_agent.py\<close>, from the four \<^verbatim>\<open>parsed.get\<close> on\<close>
  "validate parsed =
     (case get_strip parsed ''dialog'' of
        Raises e \<Rightarrow> (error_generating e, [], [], [])
      | Returns dialog \<Rightarrow>
     (case get_strip parsed ''sling_model'' of
        Raises e \<Rightarrow> (error_generating e, [], [], [])
      | Returns sling_model \<Rightarrow>
     (case get_strip parsed ''htl'' of
        Raises e \<Rightarrow> (error_generating e, [], [], [])
      | Returns htl \<Rightarrow>
     (case get_strip parsed ''js_validation'' of
        Raises e \<Rightarrow> (error_generating e, [], [], [])
      | Returns js \<Rightarrow>
          if dialog = [] then (cross_mark @ '' Failed to generate dialog'', [], [], [])
          else if sling_model = [] then
            (cross_mark @ '' Failed to generate Sling Model'', dialog, [], [])
          else if htl = [] then (cross_mark @ '' Failed to generate HTL'', dialog, sling_model, [])
          else (dialog, sling_model, htl, js)))))"

definition generate_sling_model_with_rag ::
  "query_fn \<Rightarrow> (request \<Rightarrow> string raised) \<Rightarrow> (string \<Rightarrow> (string \<rightharpoonup> jval) raised)
   \<Rightarrow> knowledge \<Rightarrow> field list \<Rightarrow> string
   \<Rightarrow> (string \<times> string \<times> string \<times> string) \<times> request event list" where
  \<comment> \<open>\<^verbatim>\<open>ai_agent.py\<close>; the second component lists the index queries and generator calls
      made, in order\<close>
  "generate_sling_model_with_rag q generator json_loads kb flds user_context =
     (if flds = [] then ((no_fields_warning, [], [], []), [])
      else
        let fields_list = map (\<lambda>f. \<lparr>ftype = ftype f, fname = fname f, flabel = flabel f\<rparr>) flds;
            (rag_context, log) = retrieve_targeted_context q flds user_context;
            full_prompt = \<lparr>fields_json = fields_list, req_user_context = user_context,
                            req_rag_context = rag_context, req_knowledge = kb\<rparr>;
            events = map (\<lambda>(text, k). Query text k) log @ [Generate full_prompt]
        in case generator full_prompt of
             Raises e \<Rightarrow> ((error_generating e, [], [], []), events)
           | Returns ai_output \<Rightarrow>
               (case json_loads ai_output of
                  Raises e \<Rightarrow> ((json_parsing_error e ai_output, [], [], []), events)
                | Returns parsed \<Rightarrow> (validate parsed, events)))"

text \<open>\<^verbatim>\<open>ai_agent_new_4.py\<close>: four retrieval domains, three outputs.\<close>

record rag_context_4 =
  dialog_context_4 :: string
  sling_context_4 :: string
  htl_context_4 :: string
  fields_context_4 :: string

definition empty_bundle_4 :: rag_context_4 where
  "empty_bundle_4 =
     \<lparr>dialog_context_4 = [], sling_context_4 = [], htl_context_4 = [], fields_context_4 = []\<rparr>"

definition retrieve_body_4 ::
  "(string set \<Rightarrow> string list) \<Rightarrow> query_fn \<Rightarrow> field list \<Rightarrow> string
   \<Rightarrow> rag_context_4 option \<times> query_log" where
  "retrieve_body_4 iter q flds user_context =
     (let all_retrieved = empty_bundle_4;
          field_types_set = set (map ftype flds);
          field_types_str = join '' '' (iter field_types_set);
          has_multifield = (''Multifield'' \<in> field_types_set);
          dialog_query = ''dialog XML granite ui container tabs items structure'' in
      run_query q dialog_query 5 [] (\<lambda>dialog_docs log.
      let all_retrieved = all_retrieved\<lparr>dialog_context_4 := join_docs dialog_docs\<rparr>;
          sling_query = ''Sling Model @Model adaptables DefaultInjectionStrategy @ValueMapValue @Default complete class''
                          @ (if has_multifield
                             then '' @ChildResource @PostConstruct ValueMap POJO inner class ArrayList multifield composite''
                             else []) in
      run_query q sling_query 8 log (\<lambda>sling_docs log.
      let all_retrieved = all_retrieved\<lparr>sling_context_4 := join_docs sling_docs\<rparr>;
          htl_query = ''HTL data-sly-use model property access syntax'' in
      run_query q htl_query 5 log (\<lambda>htl_docs log.
      let all_retrieved = all_retrieved\<lparr>htl_context_4 := join_docs htl_docs\<rparr> in
      if field_types_str \<noteq> [] then
        run_query q (field_types_str @ '' sling:resourceType granite field properties'') 8 log
          (\<lambda>fields_docs log.
             (Some (all_retrieved\<lparr>fields_context_4 := join_docs fields_docs\<rparr>), log))
      else (Some all_retrieved, log)))))"

definition retrieve_targeted_context_4 ::
  "(string set \<Rightarrow> string list) \<Rightarrow> query_fn \<Rightarrow> field list \<Rightarrow> string
   \<Rightarrow> rag_context_4 \<times> query_log" where
  "retrieve_targeted_context_4 iter q flds user_context =
     (case retrieve_body_4 iter q flds user_context of
        (Some all_retrieved, log) \<Rightarrow> (all_retrieved, log)
      | (None, log) \<Rightarrow> (empty_bundle_4, log))"

record request_4 =
  fields_json_4 :: "field list"
  req_user_context_4 :: string
  req_tab_instructions :: "string option"
  req_multifield_context_note :: "(string \<times> string list) option"
  req_rag_context_4 :: rag_context_4
  req_knowledge_4 :: knowledge

definition validate_4 :: "(string \<rightharpoonup> jval) \<Rightarrow> string \<times> string \<times> string" where
  "validate_4 parsed =
     (case get_strip parsed ''dialog'' of
        Raises e \<Rightarrow> (error_generating e, [], [])
      | Returns dialog \<Rightarrow>
     (case get_strip parsed ''sling_model'' of
        Raises e \<Rightarrow> (error_generating e, [], [])
      | Returns sling_model \<Rightarrow>
     (case get_strip parsed ''htl'' of
        Raises e \<Rightarrow> (error_generating e, [], [])
      | Returns htl \<Rightarrow>
          if dialog = [] then (cross_mark @ '' Failed to generate dialog'', [], [])
          else if sling_model = [] then (cross_mark @ '' Failed to generate Sling Model'', dialog, [])
          else if htl = [] then (cross_mark @ '' Failed to generate HTL'', dialog, sling_model)
          else (dialog, sling_model, htl))))"

definition generate_sling_model_with_rag_4 ::
  "(string set \<Rightarrow> string list) \<Rightarrow> query_fn \<Rightarrow> (request_4 \<Rightarrow> string raised)
   \<Rightarrow> (string \<Rightarrow> (string \<rightharpoonup> jval) raised) \<Rightarrow> knowledge \<Rightarrow> field list \<Rightarrow> string
   \<Rightarrow> (string \<times> string \<times> string) \<times> request_4 event list" where
  "generate_sling_model_with_rag_4 iter q generator json_loads kb flds user_context =
     (if flds = [] then ((no_fields_warning, [], []), [])
      else
        let (fields_list, multifield_info) = build_fields flds;
            tab_instructions = tab_instructions user_context;
            multifield_context_note =
              multifield_context_note fields_list multifield_info user_context;
            (rag_context, log) = retrieve_targeted_context_4 iter q flds user_context;
            full_prompt = \<lparr>fields_json_4 = fields_list, req_user_context_4 = user_context,
                            req_tab_instructions = tab_instructions,
                            req_multifield_context_note = multifield_context_note,
                            req_rag_context_4 = rag_context, req_knowledge_4 = kb\<rparr>;
            events = map (\<lambda>(text, k). Query text k) log @ [Generate full_prompt]
        in case generator full_prompt of
             Raises e \<Rightarrow> ((error_generating e, [], []), events)
           | Returns ai_output \<Rightarrow>
               (case json_loads ai_output of
                  Raises e \<Rightarrow> ((json_parsing_error e ai_output, [], []), events)
                | Returns parsed \<Rightarrow> (validate_4 parsed, events)))"

section \<open>Chunking: lemmas\<close>

lemma chunks_length: "length (chunks_of text) = (length text + 699) div 700"
  by (auto simp: chunks_of_def py_range_def chunk_size_def overlap_def)

lemma chunks_nth:
  "i < length (chunks_of text) \<Longrightarrow> chunks_of text ! i = take 800 (drop (700 * i) text)"
  by (auto simp: chunks_of_def py_range_def chunk_size_def overlap_def slice_def mult.commute)

lemma concat_blocks:
  "concat (map (\<lambda>i. take k (drop (k * i) xs)) [0..<n]) = take (k * n) xs"
proof (induction n)
  case 0
  show ?case by simp
next
  case (Suc n)
  have "take (k * n) xs @ take k (drop (k * n) xs) = take (k * n + k) xs"
    by (simp add: take_add)
  with Suc show ?case by (simp add: add.commute)
qed

lemma chunks_prefixes_concat: "concat (map (take 700) (chunks_of text)) = text"
proof -
  let ?n = "(length text + 699) div 700"
  have "map (take 700) (chunks_of text) = map (\<lambda>i. take 700 (drop (700 * i) text)) [0..<?n]"
    by (rule nth_equalityI) (simp_all add: chunks_length chunks_nth)
  then have "concat (map (take 700) (chunks_of text)) = take (700 * ?n) text"
    by (simp add: concat_blocks)
  moreover have "length text \<le> 700 * ?n"
    by arith
  ultimately show ?thesis
    by simp
qed

section \<open>Chunking: the claim\<close>

text \<open>
  C1, as stated, fails: a chunk that is not the last one can be shorter than 800. A text
  of 750 characters gives the two chunks \<^verbatim>\<open>text[0:800]\<close> (750 characters) and
  \<^verbatim>\<open>text[700:1500]\<close> (50 characters), and the first of them is not the last.
\<close>

theorem chunks_not_last_short_counterexample:
  "length (chunks_of (replicate 750 CHR ''a'')) = 2 \<and>
   length (chunks_of (replicate 750 CHR ''a'') ! 0) = 750"
  by (simp add: chunks_length chunks_nth)

text \<open>
  C1, amended: for a text of length \<open>L > 0\<close> there are \<open>(L + 699) div 700\<close> chunks, chunk
  \<open>i\<close> is \<^verbatim>\<open>text[i*700 : i*700+800]\<close> and has length \<open>min 800 (L - i*700)\<close>, which is
  positive; so a chunk has length exactly 800 when its window ends inside the text, which
  holds for every chunk except possibly the last two. The chunks cover the text with no
  gap: the first 700 characters of the chunks, concatenated, are the text.
\<close>

theorem chunks_cover_text:
  assumes "0 < length text" and "i < length (chunks_of text)"
  shows "length (chunks_of text) = (length text + 699) div 700
       \<and> chunks_of text ! i = slice text (i * 700) (i * 700 + 800)
       \<and> length (chunks_of text ! i) = min 800 (length text - i * 700)
       \<and> 0 < length (chunks_of text ! i)
       \<and> (i * 700 + 800 \<le> length text \<longrightarrow> length (chunks_of text ! i) = 800)
       \<and> (i + 2 < length (chunks_of text) \<longrightarrow> length (chunks_of text ! i) = 800)
       \<and> concat (map (take 700) (chunks_of text)) = text"
proof -
  have n: "length (chunks_of text) = (length text + 699) div 700"
    by (rule chunks_length)
  have start: "i * 700 < length text"
    using assms(2) unfolding n by arith
  have nth: "chunks_of text ! i = take 800 (drop (700 * i) text)"
    using assms(2) by (rule chunks_nth)
  have sl: "chunks_of text ! i = slice text (i * 700) (i * 700 + 800)"
    by (simp add: nth slice_def mult.commute)
  have len: "length (chunks_of text ! i) = min 800 (length text - i * 700)"
    by (simp add: nth mult.commute)
  have pos: "0 < length (chunks_of text ! i)"
    using start by (simp add: len)
  have whole: "i * 700 + 800 \<le> length text \<longrightarrow> length (chunks_of text ! i) = 800"
    by (simp add: len)
  have "i + 2 < length (chunks_of text) \<longrightarrow> i * 700 + 800 \<le> length text"
    unfolding n by arith
  with whole have two: "i + 2 < length (chunks_of text) \<longrightarrow> length (chunks_of text ! i) = 800"
    by blast
  have cov: "concat (map (take 700) (chunks_of text)) = text"
    by (rule chunks_prefixes_concat)
  from n sl len pos whole two cov show ?thesis
    by blast
qed

theorem chunks_cover_text_witness:
  "0 < length (replicate 1450 CHR ''a'')
   \<and> 1 < length (chunks_of (replicate 1450 CHR ''a''))
   \<and> length (chunks_of (replicate 1450 CHR ''a'')) = 3
   \<and> length (chunks_of (replicate 1450 CHR ''a'') ! 1) = 750
   \<and> concat (map (take 700) (chunks_of (replicate 1450 CHR ''a''))) = replicate 1450 CHR ''a''"
proof -
  have h1: "0 < length (replicate 1450 CHR ''a'')"
    by simp
  have h2: "1 < length (chunks_of (replicate 1450 CHR ''a''))"
    by (simp add: chunks_length)
  from chunks_cover_text [OF h1 h2] h1 h2 show ?thesis
    by (simp add: slice_def)
qed

section \<open>Index build: idempotence\<close>

lemma build_on_populated:
  "0 < collection_count c \<Longrightarrow> build_or_load_chroma fs c = c"
  by (simp add: build_or_load_chroma_def)

lemma build_on_empty:
  "build_or_load_chroma fs [] = index_files fs [] files_map"
  by (simp add: build_or_load_chroma_def collection_count_def)

text \<open>
  C2: when the stored collection holds at least one chunk, \<^verbatim>\<open>build_or_load_chroma\<close>
  returns it as it is (no \<^verbatim>\<open>add\<close>, so nothing new is embedded); and for any stored
  collection and any sources, a second call with the same sources leaves the count where
  the first call put it.
\<close>

theorem build_or_load_idempotent:
  "(0 < collection_count c \<longrightarrow> build_or_load_chroma fs c = c)
   \<and> collection_count (build_or_load_chroma fs (build_or_load_chroma fs c))
       = collection_count (build_or_load_chroma fs c)"
proof (cases "0 < collection_count (build_or_load_chroma fs c)")
  case True
  then show ?thesis
    by (simp add: build_on_populated)
next
  case False
  then have built: "build_or_load_chroma fs c = []"
    by (simp add: collection_count_def)
  have "\<not> 0 < collection_count c"
  proof
    assume pos: "0 < collection_count c"
    then have "build_or_load_chroma fs c = c"
      by (rule build_on_populated)
    with False pos show False
      by simp
  qed
  then have "c = []"
    by (simp add: collection_count_def)
  with built show ?thesis
    by simp
qed

theorem build_or_load_idempotent_witness:
  "0 < collection_count [\<lparr>document = ''abc'', source = ''fields_catalog'', ident = ''fields_catalog_0''\<rparr>]
   \<and> build_or_load_chroma
        (\<lambda>p. if p = ''aem_knowledge_base/fields_catalog.txt'' then Some ''abc'' else None)
        [\<lparr>document = ''abc'', source = ''fields_catalog'', ident = ''fields_catalog_0''\<rparr>]
       = [\<lparr>document = ''abc'', source = ''fields_catalog'', ident = ''fields_catalog_0''\<rparr>]"
  using build_or_load_idempotent
    [of "[\<lparr>document = ''abc'', source = ''fields_catalog'', ident = ''fields_catalog_0''\<rparr>]"
        "\<lambda>p. if p = ''aem_knowledge_base/fields_catalog.txt'' then Some ''abc'' else None"]
  by (simp add: collection_count_def)

section \<open>Retrieval: degradation\<close>

text \<open>
  C5: if the similarity index raises on every query, \<^verbatim>\<open>retrieve_targeted_context\<close>
  (in \<^verbatim>\<open>ai_agent.py\<close> and in \<^verbatim>\<open>ai_agent_new.py\<close>) returns the bundle whose five
  entries are all the empty string. The raise is caught inside the function: the body
  ends with \<open>None\<close> and the function still returns a bundle.
\<close>

theorem retrieve_all_empty_when_index_raises:
  assumes "\<And>text k. q text k = None"
  shows "fst (retrieve_body q flds user_context) = None
       \<and> fst (retrieve_body_new iter q flds user_context) = None
       \<and> fst (retrieve_targeted_context q flds user_context)
           = \<lparr>dialog_context = [], sling_context = [], htl_context = [], js_context = [],
              fields_context = []\<rparr>
       \<and> fst (retrieve_targeted_context_new iter q flds user_context)
           = \<lparr>dialog_context = [], sling_context = [], htl_context = [], js_context = [],
              fields_context = []\<rparr>"
  by (simp add: retrieve_targeted_context_def retrieve_body_def
      retrieve_targeted_context_new_def retrieve_body_new_def run_query_def assms Let_def
      empty_bundle_def)

theorem retrieve_all_empty_when_index_raises_witness:
  "(\<forall>text k. (\<lambda>t n. None :: string list option) text k = None)
   \<and> fst (retrieve_targeted_context (\<lambda>t n. None)
         [\<lparr>ftype = ''Text Field'', fname = ''title'', flabel = ''Title''\<rparr>] ''add validation'')
       = \<lparr>dialog_context = [], sling_context = [], htl_context = [], js_context = [],
          fields_context = []\<rparr>
   \<and> fst (retrieve_targeted_context_new (\<lambda>S. [''Text Field'']) (\<lambda>t n. None)
         [\<lparr>ftype = ''Text Field'', fname = ''title'', flabel = ''Title''\<rparr>] ''add validation'')
       = \<lparr>dialog_context = [], sling_context = [], htl_context = [], js_context = [],
          fields_context = []\<rparr>"
  using retrieve_all_empty_when_index_raises
    [of "\<lambda>t n. None" "[\<lparr>ftype = ''Text Field'', fname = ''title'', flabel = ''Title''\<rparr>]"
        "''add validation''" "\<lambda>S. [''Text Field'']"]
  by simp

section \<open>Retrieval: the validation query\<close>

lemma js_query_issued_when_needed:
  assumes "needs_js flds user_context" and "\<And>text k. q text k = Some (d text k)"
  shows "js_context (fst (retrieve_targeted_context q flds user_context))
           = join_docs (d (js_query flds) 5)
       \<and> (js_query flds, 5) \<in> set (snd (retrieve_targeted_context q flds user_context))"
  using assms
  by (simp add: retrieve_targeted_context_def retrieve_body_def run_query_def Let_def)

lemma js_query_new_issued_when_needed:
  assumes "needs_validation user_context \<or> ''Multifield'' \<in> set (map ftype flds)"
    and "\<And>text k. q text k = Some (d text k)"
  shows "js_context (fst (retrieve_targeted_context_new iter q flds user_context))
           = join_docs (d js_query_new 3)
       \<and> (js_query_new, 3) \<in> set (snd (retrieve_targeted_context_new iter q flds user_context))"
  using assms
  by (simp add: retrieve_targeted_context_new_def retrieve_body_new_def run_query_def Let_def)

lemma no_js_query_old:
  assumes "\<not> needs_js flds user_context"
  shows "js_context (fst (retrieve_targeted_context q flds user_context)) = []
       \<and> (\<forall>(t, k) \<in> set (snd (retrieve_targeted_context q flds user_context)). k = 10)"
  using assms
  by (auto simp: retrieve_targeted_context_def retrieve_body_def run_query_def Let_def
      empty_bundle_def TOP_K_def split: option.splits)

lemma no_js_query_new:
  assumes "\<not> (needs_validation user_context \<or> ''Multifield'' \<in> set (map ftype flds))"
  shows "js_context (fst (retrieve_targeted_context_new iter q flds user_context)) = []
       \<and> (\<forall>(t, k) \<in> set (snd (retrieve_targeted_context_new iter q flds user_context)).
            k = 5 \<or> k = 8)"
  using assms
  by (auto simp: retrieve_targeted_context_new_def retrieve_body_new_def run_query_def Let_def
      empty_bundle_def split: option.splits)

text \<open>
  C7, as stated, fails for \<^verbatim>\<open>ai_agent.py\<close>: with the single field of type
  \<^verbatim>\<open>Tags picker\<close> and the empty user context there is no validation keyword and no
  Multifield, and the validation query is issued all the same, and its documents fill
  \<^verbatim>\<open>js_context\<close>.
\<close>

theorem js_query_for_tags_picker_counterexample:
  "\<not> needs_validation ''''
   \<and> ''Multifield'' \<notin> set (map ftype [\<lparr>ftype = ''Tags picker'', fname = ''tags'', flabel = ''Tags''\<rparr>])
   \<and> (''JavaScript validation example clientlib Tags picker'', 5)
       \<in> set (snd (retrieve_targeted_context (\<lambda>text k. Some [''doc''])
                 [\<lparr>ftype = ''Tags picker'', fname = ''tags'', flabel = ''Tags''\<rparr>] ''''))
   \<and> js_context (fst (retrieve_targeted_context (\<lambda>text k. Some [''doc''])
                 [\<lparr>ftype = ''Tags picker'', fname = ''tags'', flabel = ''Tags''\<rparr>] '''')) = ''doc''"
  by (simp add: needs_validation_def lower_def retrieve_targeted_context_def retrieve_body_def
      run_query_def Let_def needs_js_def multifield_types_def join_docs_def join_def
      js_query_def)

text \<open>
  C7, amended: in \<^verbatim>\<open>ai_agent.py\<close> the validation query (the only one with
  \<^verbatim>\<open>n_results=5\<close>; the others use 10) is issued only if some field has a type in the list
  \<^verbatim>\<open>["Multifield", "Tags picker", "Drop down Field"]\<close> or the lower-cased user context
  contains \<^verbatim>\<open>validation\<close>. In \<^verbatim>\<open>ai_agent_new.py\<close> the validation query (the only one
  with \<^verbatim>\<open>n_results=3\<close>; the others use 5 and 8) is issued only if the lower-cased user
  context contains \<^verbatim>\<open>validation\<close>, \<^verbatim>\<open>validate\<close> or \<^verbatim>\<open>required\<close>, or a field of type
  \<^verbatim>\<open>Multifield\<close> is present. Otherwise \<^verbatim>\<open>js_context\<close> is the empty string and no query
  of that domain is made.
\<close>

theorem js_query_only_when_needed:
  "(\<not> ((\<exists>f \<in> set flds. ftype f \<in> {''Multifield'', ''Tags picker'', ''Drop down Field''})
        \<or> contains (lower user_context) ''validation'')
    \<longrightarrow> js_context (fst (retrieve_targeted_context q flds user_context)) = []
      \<and> (js_query flds, 5) \<notin> set (snd (retrieve_targeted_context q flds user_context))
      \<and> (\<forall>(t, k) \<in> set (snd (retrieve_targeted_context q flds user_context)). k = 10))
   \<and> (\<not> (contains (lower user_context) ''validation''
           \<or> contains (lower user_context) ''validate''
           \<or> contains (lower user_context) ''required''
           \<or> (\<exists>f \<in> set flds. ftype f = ''Multifield''))
    \<longrightarrow> js_context (fst (retrieve_targeted_context_new iter q flds user_context)) = []
      \<and> (js_query_new, 3) \<notin> set (snd (retrieve_targeted_context_new iter q flds user_context))
      \<and> (\<forall>(t, k) \<in> set (snd (retrieve_targeted_context_new iter q flds user_context)).
            k = 5 \<or> k = 8))"
proof (intro conjI impI)
  assume a: "\<not> ((\<exists>f \<in> set flds. ftype f \<in> {''Multifield'', ''Tags picker'', ''Drop down Field''})
        \<or> contains (lower user_context) ''validation'')"
  then have n: "\<not> needs_js flds user_context"
    by (simp add: needs_js_def multifield_types_def)
  from no_js_query_old [OF n, of q]
  show "js_context (fst (retrieve_targeted_context q flds user_context)) = []"
    and all10: "\<forall>(t, k) \<in> set (snd (retrieve_targeted_context q flds user_context)). k = 10"
    by blast+
  from all10 show "(js_query flds, 5) \<notin> set (snd (retrieve_targeted_context q flds user_context))"
    by auto
next
  assume a: "\<not> (contains (lower user_context) ''validation''
           \<or> contains (lower user_context) ''validate''
           \<or> contains (lower user_context) ''required''
           \<or> (\<exists>f \<in> set flds. ftype f = ''Multifield''))"
  then have n: "\<not> (needs_validation user_context \<or> ''Multifield'' \<in> set (map ftype flds))"
    by (auto simp: needs_validation_def)
  from no_js_query_new [OF n, of iter q]
  show "js_context (fst (retrieve_targeted_context_new iter q flds user_context)) = []"
    and all58: "\<forall>(t, k) \<in> set (snd (retrieve_targeted_context_new iter q flds user_context)).
            k = 5 \<or> k = 8"
    by blast+
  from all58 show "(js_query_new, 3) \<notin> set (snd (retrieve_targeted_context_new iter q flds user_context))"
    by auto
qed

theorem js_query_only_when_needed_witness:
  "\<not> ((\<exists>f \<in> set [\<lparr>ftype = ''Text Field'', fname = ''title'', flabel = ''Title''\<rparr>].
          ftype f \<in> {''Multifield'', ''Tags picker'', ''Drop down Field''})
      \<or> contains (lower ''bold title'') ''validation'')
   \<and> \<not> (contains (lower ''bold title'') ''validation''
        \<or> contains (lower ''bold title'') ''validate''
        \<or> contains (lower ''bold title'') ''required''
        \<or> (\<exists>f \<in> set [\<lparr>ftype = ''Text Field'', fname = ''title'', flabel = ''Title''\<rparr>].
              ftype f = ''Multifield''))
   \<and> js_context (fst (retrieve_targeted_context (\<lambda>text k. Some [''doc''])
         [\<lparr>ftype = ''Text Field'', fname = ''title'', flabel = ''Title''\<rparr>] ''bold title'')) = []
   \<and> js_context (fst (retrieve_targeted_context_new (\<lambda>S. [''Text Field'']) (\<lambda>text k. Some [''doc''])
         [\<lparr>ftype = ''Text Field'', fname = ''title'', flabel = ''Title''\<rparr>] ''bold title'')) = []"
proof -
  have h1: "\<not> ((\<exists>f \<in> set [\<lparr>ftype = ''Text Field'', fname = ''title'', flabel = ''Title''\<rparr>].
          ftype f \<in> {''Multifield'', ''Tags picker'', ''Drop down Field''})
      \<or> contains (lower ''bold title'') ''validation'')"
    by (simp add: lower_def lower_char_def)
  have h2: "\<not> (contains (lower ''bold title'') ''validation''
        \<or> contains (lower ''bold title'') ''validate''
        \<or> contains (lower ''bold title'') ''required''
        \<or> (\<exists>f \<in> set [\<lparr>ftype = ''Text Field'', fname = ''title'', flabel = ''Title''\<rparr>].
              ftype f = ''Multifield''))"
    by (simp add: lower_def lower_char_def)
  from h1 h2 js_query_only_when_needed
    [of "[\<lparr>ftype = ''Text Field'', fname = ''title'', flabel = ''Title''\<rparr>]" "''bold title''"
        "\<lambda>text k. Some [''doc'']" "\<lambda>S. [''Text Field'']"]
  show ?thesis
    by blast
qed

section \<open>Adding a field\<close>

text \<open>
  C10: a call of \<^verbatim>\<open>add_field\<close> with an empty field name or an empty field label leaves
  the session field list as it was, returns the displayed list as it was given, and
  returns the warning message, which is not the success message.
\<close>

theorem add_field_rejects_empty:
  assumes "field_name = [] \<or> field_label = []"
  shows "add_field selected_type field_name field_label current_list fields_data
           = (current_list, warning_sign @ '' Please enter both a field name and label.'',
              fields_data)
       \<and> fst (snd (add_field selected_type field_name field_label current_list fields_data))
           \<noteq> check_mark @ '' Added '' @ selected_type @ '' field successfully.''"
  using assms by (auto simp: add_field_def warning_sign_def check_mark_def)

theorem add_field_rejects_empty_witness:
  "(('''' :: string) = [] \<or> ''Title'' = [])
   \<and> add_field ''Text Field'' '''' ''Title'' no_fields_yet
         [\<lparr>ftype = ''Text Field'', fname = ''a'', flabel = ''A''\<rparr>]
       = (no_fields_yet, warning_sign @ '' Please enter both a field name and label.'',
          [\<lparr>ftype = ''Text Field'', fname = ''a'', flabel = ''A''\<rparr>])"
  using add_field_rejects_empty [of "''''" "''Title''" "''Text Field''" no_fields_yet
      "[\<lparr>ftype = ''Text Field'', fname = ''a'', flabel = ''A''\<rparr>]"]
  by simp

section \<open>Generation: no fields\<close>

text \<open>
  C9: with an empty field list, \<^verbatim>\<open>generate_sling_model_with_rag\<close> (in \<^verbatim>\<open>ai_agent.py\<close> and
  in \<^verbatim>\<open>ai_agent_new_4.py\<close>) returns at once the warning message with every other output
  empty, and the list of effects is empty: no index query is issued, no request is
  assembled and the code generator is not called.
\<close>

theorem no_fields_no_request:
  "generate_sling_model_with_rag q generator json_loads kb [] user_context
     = ((warning_sign @ '' Please add at least one field before generating.'', [], [], []), [])
   \<and> generate_sling_model_with_rag_4 iter q generator_4 json_loads kb [] user_context
     = ((warning_sign @ '' Please add at least one field before generating.'', [], []), [])"
  by (simp add: generate_sling_model_with_rag_def generate_sling_model_with_rag_4_def
      no_fields_warning_def)

lemma some_fields_one_request:
  assumes "flds \<noteq> []"
  shows "\<exists>log req.
           snd (generate_sling_model_with_rag q generator json_loads kb flds user_context)
             = map (\<lambda>(text, k). Query text k) log @ [Generate req] \<and> log \<noteq> []"
  using assms
  apply (simp add: generate_sling_model_with_rag_def Let_def split: prod.splits raised.splits)
  apply (auto simp: retrieve_targeted_context_def retrieve_body_def run_query_def Let_def
      split: option.splits prod.splits if_splits)
  done

section \<open>Generation: incomplete artifacts\<close>



section \<open>Tab inference: lemmas\<close>





lemma of_char_less: "(of_char c :: nat) < 256"
proof -
  have "(of_char c :: nat) mod 256 = of_char c"
    by simp
  then show ?thesis
    by (metis mod_less_divisor zero_less_numeral)
qed











section \<open>Multifield bookkeeping: lemmas\<close>










section \<open>Tab inference: detected names\<close>




section \<open>Tab inference: what the request carries\<close>




section \<open>Multifield children\<close>




end
